theory Spec2Isabelle
  imports Main "HOL-Library.Sublist"
begin

section \<open>Data model\<close>

text \<open>
  The application component \<^verbatim>\<open>App\<close> of \<^verbatim>\<open>src/App.tsx\<close> holds nine state cells and
  reacts to them with two effects (style analysis, prompt construction) and one handler
  (image generation). The model keeps the state cells in a record, turns each setter call
  into a record update, and represents the two remote collaborators by the outcome of
  their promise.
\<close>

text \<open>\<^verbatim>\<open>ImageFile\<close>: an image held in memory.\<close>

record ImageFile =
  base64 :: string
  mimeType :: string
  name :: string

text \<open>
  The key sets of the two \<^verbatim>\<open>Record<..., string>\<close> tables. The key \<^verbatim>\<open>'45 degree Angle'\<close>
  (written with the degree sign in the source) is the constructor \<open>Angle_45\<close>.
\<close>

datatype LightingStyle =
  Natural_Light | Studio_Light | Golden_Hour | Blue_Hour | Cinematic | Dramatic

datatype CameraPerspective =
  Front_View | Top_View | Side_View | Angle_45 | Close_up | Macro_Shot

record CustomizationOptions =
  lightingStyle :: LightingStyle
  cameraPerspective :: CameraPerspective

text \<open>The state cells declared with \<^verbatim>\<open>useState\<close>; \<^verbatim>\<open>null\<close> is \<open>None\<close>.\<close>

record AppState =
  productImage :: "ImageFile option"
  styleImage :: "ImageFile option"
  generatedImage :: "ImageFile option"
  styleDescription :: "string option"
  isAnalyzingStyle :: bool
  options :: CustomizationOptions
  prompt :: string
  isLoading :: bool
  error :: "string option"

text \<open>
  How an awaited collaborator promise settles: it resolves with a value, or it rejects
  with an \<^verbatim>\<open>Error\<close> object carrying a message, or it rejects with a value that is not an
  \<^verbatim>\<open>Error\<close> (the \<^verbatim>\<open>err instanceof Error\<close> test of both \<^verbatim>\<open>catch\<close> blocks tells the last
  two apart).
\<close>

datatype 'a outcome = Resolved 'a | RejectedError string | RejectedOther

section \<open>Static lookup tables\<close>

primrec LIGHTING_DESCRIPTIONS :: "LightingStyle \<Rightarrow> string" where
  "LIGHTING_DESCRIPTIONS Natural_Light =
     ''Bathed in soft, diffused natural light, creating a clean, airy, and authentic feel. Emphasize realistic highlights and gentle shadows.''"
| "LIGHTING_DESCRIPTIONS Studio_Light =
     ''Lit with a professional multi-point studio setup. Use a key light, fill light, and rim light to sculpt the product's form, create depth, and produce crisp, clean highlights. The background should be seamless and evenly lit.''"
| "LIGHTING_DESCRIPTIONS Golden_Hour =
     ''Illuminated by the warm, soft, and directional light of the golden hour (just after sunrise or before sunset). The scene should have long, soft shadows and a warm, inviting color palette.''"
| "LIGHTING_DESCRIPTIONS Blue_Hour =
     ''Captured during the blue hour (the period of twilight in the morning or evening). The light should be cool, soft, and diffused, creating a serene and moody atmosphere with a predominantly blue color cast.''"
| "LIGHTING_DESCRIPTIONS Cinematic =
     ''Use dramatic, moody lighting with high contrast, similar to a film still. Emphasize texture and shape with creative use of light and shadow. Consider using color gels for a stylized effect.''"
| "LIGHTING_DESCRIPTIONS Dramatic =
     ''Characterized by high contrast and strong, hard light (chiaroscuro). Use deep shadows to create a sense of mystery, power, and intensity, focusing attention on specific parts of the product.''"

primrec CAMERA_PERSPECTIVE_DESCRIPTIONS :: "CameraPerspective \<Rightarrow> string" where
  "CAMERA_PERSPECTIVE_DESCRIPTIONS Front_View =
     ''A direct, head-on shot from the front, perfectly centered. This perspective should clearly display the product's primary face and branding in a straightforward manner.''"
| "CAMERA_PERSPECTIVE_DESCRIPTIONS Top_View =
     ''A bird's-eye view, shot directly from above (a flat lay or knolling perspective). This is ideal for showcasing the product's shape, layout, or components on a flat surface.''"
| "CAMERA_PERSPECTIVE_DESCRIPTIONS Side_View =
     ''A profile shot taken directly from the side. This perspective is used to highlight the product's silhouette, thickness, and details not visible from the front.''"
| "CAMERA_PERSPECTIVE_DESCRIPTIONS Angle_45 =
     ''An isometric or three-quarter view, shot from a 45-degree angle from the front and side. This popular perspective provides a sense of depth and dimension, showing multiple sides of the product at once.''"
| "CAMERA_PERSPECTIVE_DESCRIPTIONS Close_up =
     ''A tight shot focusing on a specific, interesting detail of the product. This should highlight its material, texture, craftsmanship, or a key feature with a shallow depth of field.''"
| "CAMERA_PERSPECTIVE_DESCRIPTIONS Macro_Shot =
     ''An extreme close-up view that reveals intricate details not visible to the naked eye. This perspective should magnify textures, patterns, and minuscule components, emphasizing the product's quality and precision.''"

section \<open>Prompt construction\<close>

text \<open>
  JavaScript truthiness of a \<^verbatim>\<open>string | null\<close> value, as tested by
  \<^verbatim>\<open>if (styleDescription)\<close>: \<^verbatim>\<open>null\<close> and the empty string are falsy. An \<^verbatim>\<open>ImageFile | null\<close>
  value is truthy exactly when it is not \<^verbatim>\<open>null\<close>, which the model writes as a case
  distinction on the option.
\<close>

fun truthy :: "string option \<Rightarrow> bool" where
  "truthy None = False"
| "truthy (Some d) = (d \<noteq> [])"

text \<open>
  The body of the second effect. It reads the state cells and ends in \<^verbatim>\<open>setPrompt\<close>.
  The template literal is split where the source interpolates; a line break of the
  literal is \<open>\<newline>\<close> and the double quote around the description is \<open>CHR 0x22\<close>.
\<close>

definition generateNewPrompt :: "AppState \<Rightarrow> AppState" where
  "generateNewPrompt s =
     (case productImage s of
        None \<Rightarrow> s\<lparr>prompt := []\<rparr>
      | Some _ \<Rightarrow>
          let lightingDesc = LIGHTING_DESCRIPTIONS (lightingStyle (options s));
              perspectiveDesc = CAMERA_PERSPECTIVE_DESCRIPTIONS (cameraPerspective (options s));
              newPrompt =
                ''Generate a high-resolution, professional product photograph of the subject in the provided image.\<newline>\<newline>Key requirements:\<newline>- **Lighting**: ''
                @ lightingDesc @
                ''\<newline>- **Camera Perspective**: ''
                @ perspectiveDesc @
                ''\<newline>- **Background**: The background should be clean, non-distracting, and complementary to the product. A subtle, high-end studio setting is preferred, unless the lighting or style suggests otherwise.\<newline>- **Overall Mood**: The image should feel premium, clean, and aspirational. Focus on photorealism and fine detail.'';
              newPrompt' =
                (case styleImage s of
                   None \<Rightarrow> newPrompt
                 | Some _ \<Rightarrow>
                     if isAnalyzingStyle s then
                       newPrompt @
                       ''\<newline>\<newline>- **Style Reference**: A style reference image is being analyzed. Please wait for the analysis to complete for specific style instructions.''
                     else if truthy (styleDescription s) then
                       newPrompt @
                       ''\<newline>\<newline>- **Style Reference**: Strictly adhere to the aesthetic of the provided style reference image, which is described as: ''
                       @ [CHR 0x22] @ the (styleDescription s) @ [CHR 0x22] @
                       ''. The goal is to make the product look as if it belongs in the same visual world, matching the mood, color palette, and textures.''
                     else
                       newPrompt @
                       ''\<newline>\<newline>- **Style Reference**: Strictly adhere to the aesthetic, color palette, texture, and overall mood of the provided style reference image. The goal is to make the product look as if it belongs in the same visual world as the style reference.'')
          in s\<lparr>prompt := newPrompt'\<rparr>)"

section \<open>Style analysis\<close>

text \<open>
  The first effect, which React runs after a render in which \<^verbatim>\<open>styleImage\<close> differs from
  the previous render. Its synchronous part runs up to the \<^verbatim>\<open>await\<close>: it returns the
  state after the setter calls made so far and, when \<^verbatim>\<open>analyzeStyleImage\<close> is called, the
  image passed to it.
\<close>

definition styleEffect_begin :: "AppState \<Rightarrow> AppState \<times> ImageFile option" where
  "styleEffect_begin s =
     (case styleImage s of
        Some img \<Rightarrow> (s\<lparr>isAnalyzingStyle := True, error := None\<rparr>, Some img)
      | None \<Rightarrow> (s\<lparr>styleDescription := None\<rparr>, None))"

text \<open>
  The continuation of \<^verbatim>\<open>getStyleDescription\<close> after the \<^verbatim>\<open>await\<close>, applied to the state
  as it is when the promise settles: the \<^verbatim>\<open>try\<close> body, the \<^verbatim>\<open>catch\<close> block and then the
  \<^verbatim>\<open>finally\<close> block.
\<close>

fun getStyleDescription_resume :: "string outcome \<Rightarrow> AppState \<Rightarrow> AppState" where
  "getStyleDescription_resume (Resolved description) s =
     s\<lparr>styleDescription := Some description, isAnalyzingStyle := False\<rparr>"
| "getStyleDescription_resume (RejectedError message) s =
     s\<lparr>error := Some message, styleDescription := None, isAnalyzingStyle := False\<rparr>"
| "getStyleDescription_resume RejectedOther s =
     s\<lparr>error := Some ''Could not analyze the style image.'', styleDescription := None,
       isAnalyzingStyle := False\<rparr>"

text \<open>
  The whole effect when nothing else happens while the promise is pending. The
  collaborator \<^verbatim>\<open>analyzeStyleImage\<close> is a parameter; the second component lists the
  arguments of every call made to it.
\<close>

definition styleEffect ::
  "(ImageFile \<Rightarrow> string outcome) \<Rightarrow> AppState \<Rightarrow> AppState \<times> ImageFile list" where
  "styleEffect analyzeStyleImage s =
     (case styleEffect_begin s of
        (s1, None) \<Rightarrow> (s1, [])
      | (s1, Some img) \<Rightarrow> (getStyleDescription_resume (analyzeStyleImage img) s1, [img]))"

text \<open>
  A change of the style image, followed until the application is at rest. The setter
  \<^verbatim>\<open>setStyleImage\<close> stores the new reference; the dependency list \<^verbatim>\<open>[styleImage]\<close> makes
  React run the style-analysis effect. The cells \<^verbatim>\<open>styleImage\<close>, \<^verbatim>\<open>styleDescription\<close> and
  \<^verbatim>\<open>isAnalyzingStyle\<close> are also dependencies of the prompt effect, which therefore runs
  again after each of their changes and overwrites \<^verbatim>\<open>prompt\<close>; its last run sees the
  cells as the analysis left them, so the prompt at rest is the one built from the final
  state.
\<close>

definition setStyleImage ::
  "(ImageFile \<Rightarrow> string outcome) \<Rightarrow> ImageFile option \<Rightarrow> AppState \<Rightarrow> AppState \<times> ImageFile list" where
  "setStyleImage analyzeStyleImage v s =
     (case styleEffect analyzeStyleImage (s\<lparr>styleImage := v\<rparr>) of
        (s1, calls) \<Rightarrow> (generateNewPrompt s1, calls))"

section \<open>Image generation\<close>

text \<open>
  The handler \<^verbatim>\<open>handleGenerate\<close> up to its \<^verbatim>\<open>await\<close>. The test \<^verbatim>\<open>!productImage || !prompt\<close>
  holds when the image is \<^verbatim>\<open>null\<close> or the prompt is the empty string. The second
  component is the argument triple of the call to \<^verbatim>\<open>generateImage\<close>, when one is made.
\<close>

definition handleGenerate_begin ::
  "AppState \<Rightarrow> AppState \<times> (ImageFile \<times> string \<times> ImageFile option) option" where
  "handleGenerate_begin s =
     (case productImage s of
        None \<Rightarrow>
          (s\<lparr>error := Some ''Please upload a product image and ensure the prompt is not empty.''\<rparr>,
           None)
      | Some p \<Rightarrow>
          if prompt s = [] then
            (s\<lparr>error := Some ''Please upload a product image and ensure the prompt is not empty.''\<rparr>,
             None)
          else
            (s\<lparr>isLoading := True, error := None, generatedImage := None\<rparr>,
             Some (p, prompt s, styleImage s)))"

text \<open>The continuation after the \<^verbatim>\<open>await\<close>: \<^verbatim>\<open>try\<close> body or \<^verbatim>\<open>catch\<close> block, then \<^verbatim>\<open>finally\<close>.\<close>

fun handleGenerate_resume :: "ImageFile outcome \<Rightarrow> AppState \<Rightarrow> AppState" where
  "handleGenerate_resume (Resolved result) s =
     s\<lparr>generatedImage := Some result, isLoading := False\<rparr>"
| "handleGenerate_resume (RejectedError message) s =
     s\<lparr>error := Some message, isLoading := False\<rparr>"
| "handleGenerate_resume RejectedOther s =
     s\<lparr>error := Some ''An unknown error occurred during image generation.'',
       isLoading := False\<rparr>"

text \<open>
  One trigger of the handler, run to completion. The collaborator \<^verbatim>\<open>generateImage\<close> is a
  parameter; the second component lists the argument triples of every call made to it.
\<close>

definition handleGenerate ::
  "(ImageFile \<Rightarrow> string \<Rightarrow> ImageFile option \<Rightarrow> ImageFile outcome) \<Rightarrow> AppState
     \<Rightarrow> AppState \<times> (ImageFile \<times> string \<times> ImageFile option) list" where
  "handleGenerate generateImage s =
     (case handleGenerate_begin s of
        (s1, None) \<Rightarrow> (s1, [])
      | (s1, Some (p, t, st)) \<Rightarrow>
          (handleGenerate_resume (generateImage p t st) s1, [(p, t, st)]))"

section \<open>Named parts of the prompt\<close>

text \<open>
  The literal segments of the template and of the three style clauses, named so that
  proofs can treat them as opaque; \<open>generateNewPrompt_shape\<close> below ties them to the
  definition of \<open>generateNewPrompt\<close>.
\<close>

definition template_head :: string where
  "template_head =
     ''Generate a high-resolution, professional product photograph of the subject in the provided image.\<newline>\<newline>Key requirements:\<newline>- **Lighting**: ''"

definition template_mid :: string where
  "template_mid = ''\<newline>- **Camera Perspective**: ''"

definition template_tail :: string where
  "template_tail =
     ''\<newline>- **Background**: The background should be clean, non-distracting, and complementary to the product. A subtle, high-end studio setting is preferred, unless the lighting or style suggests otherwise.\<newline>- **Overall Mood**: The image should feel premium, clean, and aspirational. Focus on photorealism and fine detail.''"

definition clause_pending :: string where
  "clause_pending =
     ''\<newline>\<newline>- **Style Reference**: A style reference image is being analyzed. Please wait for the analysis to complete for specific style instructions.''"

definition clause_described :: "string \<Rightarrow> string" where
  "clause_described d =
     ''\<newline>\<newline>- **Style Reference**: Strictly adhere to the aesthetic of the provided style reference image, which is described as: ''
     @ [CHR 0x22] @ d @ [CHR 0x22] @
     ''. The goal is to make the product look as if it belongs in the same visual world, matching the mood, color palette, and textures.''"

definition clause_fallback :: string where
  "clause_fallback =
     ''\<newline>\<newline>- **Style Reference**: Strictly adhere to the aesthetic, color palette, texture, and overall mood of the provided style reference image. The goal is to make the product look as if it belongs in the same visual world as the style reference.''"

definition styleClause :: "AppState \<Rightarrow> string" where
  "styleClause s =
     (case styleImage s of
        None \<Rightarrow> []
      | Some _ \<Rightarrow>
          if isAnalyzingStyle s then clause_pending
          else if truthy (styleDescription s) then clause_described (the (styleDescription s))
          else clause_fallback)"

section \<open>Example inputs\<close>

text \<open>Concrete images, states and collaborators on which the theorems below are instantiated.\<close>

definition example_product :: ImageFile where
  "example_product = \<lparr>base64 = ''cHJvZHVjdA=='', mimeType = ''image/png'', name = ''product.png''\<rparr>"

definition example_style :: ImageFile where
  "example_style = \<lparr>base64 = ''c3R5bGU='', mimeType = ''image/jpeg'', name = ''style.jpg''\<rparr>"

definition example_result :: ImageFile where
  "example_result = \<lparr>base64 = ''cmVzdWx0'', mimeType = ''image/png'', name = ''generated.png''\<rparr>"

text \<open>A product image is loaded, no style image, Golden Hour and Close-up selected.\<close>

definition example_state :: AppState where
  "example_state =
     \<lparr>productImage = Some example_product, styleImage = None, generatedImage = None,
      styleDescription = None, isAnalyzingStyle = False,
      options = \<lparr>lightingStyle = Golden_Hour, cameraPerspective = Close_up\<rparr>,
      prompt = ''Make it shine'', isLoading = False, error = None\<rparr>"

text \<open>Variations of the example state.\<close>

definition no_product_state :: AppState where
  "no_product_state =
     example_state\<lparr>productImage := None, generatedImage := Some example_result, prompt := []\<rparr>"

definition edited_empty_state :: AppState where
  "edited_empty_state = example_state\<lparr>generatedImage := Some example_result, prompt := []\<rparr>"

definition stale_state :: AppState where
  "stale_state =
     example_state\<lparr>generatedImage := Some example_result, error := Some ''old failure''\<rparr>"

definition pending_state :: AppState where
  "pending_state = example_state\<lparr>styleImage := Some example_style, isAnalyzingStyle := True\<rparr>"

definition described_state :: AppState where
  "described_state =
     example_state\<lparr>styleImage := Some example_style, styleDescription := Some ''minimalist pastel''\<rparr>"

definition failed_state :: AppState where
  "failed_state = example_state\<lparr>styleImage := Some example_style, styleDescription := None\<rparr>"

definition warm_state :: AppState where
  "warm_state =
     example_state\<lparr>styleImage := Some example_style, styleDescription := Some ''warm tones''\<rparr>"

text \<open>Collaborators with a fixed outcome.\<close>

definition generate_ok :: "ImageFile \<Rightarrow> string \<Rightarrow> ImageFile option \<Rightarrow> ImageFile outcome" where
  "generate_ok p t st = Resolved example_result"

definition generate_echo :: "ImageFile \<Rightarrow> string \<Rightarrow> ImageFile option \<Rightarrow> ImageFile outcome" where
  "generate_echo p t st = Resolved \<lparr>base64 = base64 p, mimeType = mimeType p, name = t\<rparr>"

definition generate_error :: "ImageFile \<Rightarrow> string \<Rightarrow> ImageFile option \<Rightarrow> ImageFile outcome" where
  "generate_error p t st = RejectedError ''quota exceeded''"

definition generate_thrown :: "ImageFile \<Rightarrow> string \<Rightarrow> ImageFile option \<Rightarrow> ImageFile outcome" where
  "generate_thrown p t st = RejectedOther"

definition analyze_ok :: "ImageFile \<Rightarrow> string outcome" where
  "analyze_ok img = Resolved ''minimalist pastel''"

definition analyze_error :: "ImageFile \<Rightarrow> string outcome" where
  "analyze_error img = RejectedError ''network down''"

definition analyze_thrown :: "ImageFile \<Rightarrow> string outcome" where
  "analyze_thrown img = RejectedOther"

definition resolve_empty :: "ImageFile \<Rightarrow> string outcome" where
  "resolve_empty img = Resolved []"

text \<open>
  The state reached from the example state when a style image is chosen and its analysis
  resolves with the empty string.
\<close>

definition empty_description_state :: AppState where
  "empty_description_state = fst (setStyleImage resolve_empty (Some example_style) example_state)"

section \<open>Shape of the built prompt\<close>

lemma prompt_update_prompt: "prompt (s\<lparr>prompt := x\<rparr>) = x"
  by simp

lemmas template_defs =
  template_head_def template_mid_def template_tail_def
  clause_pending_def clause_described_def clause_fallback_def

lemma generateNewPrompt_shape:
  assumes "productImage s = Some p"
  shows "prompt (generateNewPrompt s) =
           template_head @ LIGHTING_DESCRIPTIONS (lightingStyle (options s)) @
           template_mid @ CAMERA_PERSPECTIVE_DESCRIPTIONS (cameraPerspective (options s)) @
           template_tail @ styleClause s"
proof (cases "styleImage s")
  case None
  with assms show ?thesis
    unfolding generateNewPrompt_def styleClause_def template_defs Let_def
    by (simp only: option.case prompt_update_prompt append_assoc append_Nil2)
next
  case (Some sty)
  show ?thesis
  proof (cases "isAnalyzingStyle s")
    case True
    with assms Some show ?thesis
      unfolding generateNewPrompt_def styleClause_def template_defs Let_def
      by (simp only: option.case if_True prompt_update_prompt append_assoc)
  next
    case False
    note na = this
    show ?thesis
    proof (cases "truthy (styleDescription s)")
      case True
      with assms Some na show ?thesis
        unfolding generateNewPrompt_def styleClause_def template_defs Let_def
        by (simp only: option.case if_True if_False prompt_update_prompt append_assoc)
    next
      case False
      with assms Some na show ?thesis
        unfolding generateNewPrompt_def styleClause_def template_defs Let_def
        by (simp only: option.case if_True if_False prompt_update_prompt append_assoc)
    qed
  qed
qed

text \<open>The builder writes the prompt cell and no other.\<close>

lemma generateNewPrompt_writes_prompt: "\<exists>x. generateNewPrompt s = s\<lparr>prompt := x\<rparr>"
proof (cases "productImage s")
  case None
  then show ?thesis
    unfolding generateNewPrompt_def by (simp only: option.case) (rule exI, rule refl)
next
  case (Some p)
  then show ?thesis
    unfolding generateNewPrompt_def Let_def by (simp only: option.case) (rule exI, rule refl)
qed

lemma generateNewPrompt_cells:
  "productImage (generateNewPrompt s) = productImage s"
  "styleImage (generateNewPrompt s) = styleImage s"
  "generatedImage (generateNewPrompt s) = generatedImage s"
  "styleDescription (generateNewPrompt s) = styleDescription s"
  "isAnalyzingStyle (generateNewPrompt s) = isAnalyzingStyle s"
  "options (generateNewPrompt s) = options s"
  "isLoading (generateNewPrompt s) = isLoading s"
  "error (generateNewPrompt s) = error s"
proof -
  obtain x where "generateNewPrompt s = s\<lparr>prompt := x\<rparr>"
    using generateNewPrompt_writes_prompt by blast
  then show
    "productImage (generateNewPrompt s) = productImage s"
    "styleImage (generateNewPrompt s) = styleImage s"
    "generatedImage (generateNewPrompt s) = generatedImage s"
    "styleDescription (generateNewPrompt s) = styleDescription s"
    "isAnalyzingStyle (generateNewPrompt s) = isAnalyzingStyle s"
    "options (generateNewPrompt s) = options s"
    "isLoading (generateNewPrompt s) = isLoading s"
    "error (generateNewPrompt s) = error s"
    by simp_all
qed

lemma template_head_nonempty: "template_head \<noteq> []"
  unfolding template_head_def by (simp only: list.distinct not_False_eq_True)

lemma styleClause_no_style: "styleClause (s\<lparr>styleImage := None\<rparr>) = []"
  by (simp add: styleClause_def)

lemma generateNewPrompt_style_suffix:
  assumes "productImage s = Some p"
  shows "prompt (generateNewPrompt s) =
           prompt (generateNewPrompt (s\<lparr>styleImage := None\<rparr>)) @ styleClause s"
proof -
  have "productImage (s\<lparr>styleImage := None\<rparr>) = Some p" using assms by simp
  from generateNewPrompt_shape [OF this] generateNewPrompt_shape [OF assms]
  show ?thesis by (simp add: styleClause_no_style)
qed

text \<open>
  The capital letter R occurs in no table entry and in no segment of the template, but
  in the heading of each style clause.
\<close>

lemma no_R_in_tables:
  "CHR ''R'' \<notin> set (LIGHTING_DESCRIPTIONS l)"
  "CHR ''R'' \<notin> set (CAMERA_PERSPECTIVE_DESCRIPTIONS c)"
  by (cases l, simp_all) (cases c, simp_all)

lemma no_R_in_template:
  "CHR ''R'' \<notin> set template_head" "CHR ''R'' \<notin> set template_mid"
  "CHR ''R'' \<notin> set template_tail"
  unfolding template_defs by simp_all

lemma no_style_marker:
  assumes "productImage s = Some p" and "styleImage s = None"
  shows "\<not> sublist ''- **Style Reference**'' (prompt (generateNewPrompt s))"
proof
  assume "sublist ''- **Style Reference**'' (prompt (generateNewPrompt s))"
  from set_mono_sublist [OF this]
  have "CHR ''R'' \<in> set (prompt (generateNewPrompt s))" by simp
  moreover have "styleClause s = []" using assms(2) by (simp add: styleClause_def)
  ultimately show False
    using generateNewPrompt_shape [OF assms(1)] no_R_in_tables no_R_in_template by simp
qed

section \<open>The two branches of the generation handler\<close>

lemma handleGenerate_invalid:
  assumes "productImage s = None \<or> prompt s = []"
  shows "handleGenerate_begin s =
    (s\<lparr>error := Some ''Please upload a product image and ensure the prompt is not empty.''\<rparr>, None)"
  using assms by (auto simp add: handleGenerate_begin_def split: option.split)

lemma handleGenerate_valid:
  assumes "productImage s = Some p" and "prompt s \<noteq> []"
  shows "handleGenerate_begin s =
    (s\<lparr>isLoading := True, error := None, generatedImage := None\<rparr>,
     Some (p, prompt s, styleImage s))"
  using assms by (simp add: handleGenerate_begin_def)

section \<open>Properties of the prompt builder\<close>

text \<open>
  C1. For every lighting and perspective selection and every state of the style analysis
  (indeed for every value of the other state cells), the prompt that the builder stores
  is the empty string exactly when no product image is present.
\<close>

theorem generateNewPrompt_empty_iff:
  "prompt (generateNewPrompt s) = [] \<longleftrightarrow> productImage s = None"
proof (cases "productImage s")
  case None
  then show ?thesis by (simp add: generateNewPrompt_def)
next
  case (Some p)
  from generateNewPrompt_shape [OF Some] template_head_nonempty Some
  show ?thesis by simp
qed

text \<open>Both directions on concrete states: one with a product image, one without.\<close>

theorem generateNewPrompt_empty_iff_witness:
  "productImage example_state \<noteq> None \<and> prompt (generateNewPrompt example_state) \<noteq> [] \<and>
   productImage no_product_state = None \<and> prompt (generateNewPrompt no_product_state) = []"
proof -
  have "productImage example_state \<noteq> None" by (simp add: example_state_def)
  moreover have "productImage no_product_state = None" by (simp add: no_product_state_def)
  ultimately show ?thesis
    using generateNewPrompt_empty_iff [of example_state]
      generateNewPrompt_empty_iff [of no_product_state] by simp
qed

text \<open>
  C3. For each lighting value \<open>l\<close> and each camera perspective \<open>c\<close> (the two datatypes
  have six values each, so these are the 36 combinations), when a product image is
  present the built prompt contains, as a contiguous substring, the table entry
  \<open>LIGHTING_DESCRIPTIONS l\<close> and the table entry \<open>CAMERA_PERSPECTIVE_DESCRIPTIONS c\<close>,
  whatever the state of the style image and of its analysis.
\<close>

theorem prompt_contains_canned_sentences:
  assumes "productImage s = Some p"
    and "options s = \<lparr>lightingStyle = l, cameraPerspective = c\<rparr>"
  shows "sublist (LIGHTING_DESCRIPTIONS l) (prompt (generateNewPrompt s)) \<and>
         sublist (CAMERA_PERSPECTIVE_DESCRIPTIONS c) (prompt (generateNewPrompt s))"
proof -
  let ?L = "LIGHTING_DESCRIPTIONS l" and ?C = "CAMERA_PERSPECTIVE_DESCRIPTIONS c"
  have shape: "prompt (generateNewPrompt s) =
      template_head @ ?L @ template_mid @ ?C @ template_tail @ styleClause s"
    using generateNewPrompt_shape [OF assms(1)] assms(2) by simp
  have "sublist ?L (template_head @ ?L @ (template_mid @ ?C @ template_tail @ styleClause s))"
    by (rule sublist_appendI)
  moreover
  have "sublist ?C ((template_head @ ?L @ template_mid) @ ?C @ (template_tail @ styleClause s))"
    by (rule sublist_appendI)
  ultimately show ?thesis unfolding shape by (simp only: append_assoc)
qed

text \<open>
  On the state with Golden Hour, Close-up and a described style image, the two sentences
  of the source tables are found in the prompt.
\<close>

theorem prompt_contains_canned_sentences_witness:
  "productImage described_state = Some example_product \<and>
   options described_state = \<lparr>lightingStyle = Golden_Hour, cameraPerspective = Close_up\<rparr> \<and>
   sublist
     ''Illuminated by the warm, soft, and directional light of the golden hour (just after sunrise or before sunset). The scene should have long, soft shadows and a warm, inviting color palette.''
     (prompt (generateNewPrompt described_state)) \<and>
   sublist
     ''A tight shot focusing on a specific, interesting detail of the product. This should highlight its material, texture, craftsmanship, or a key feature with a shallow depth of field.''
     (prompt (generateNewPrompt described_state))"
proof -
  have a: "productImage described_state = Some example_product"
    by (simp add: described_state_def example_state_def)
  have b: "options described_state = \<lparr>lightingStyle = Golden_Hour, cameraPerspective = Close_up\<rparr>"
    by (simp add: described_state_def example_state_def)
  from prompt_contains_canned_sentences [OF a b] a b
  show ?thesis
    by (simp only: LIGHTING_DESCRIPTIONS.simps CAMERA_PERSPECTIVE_DESCRIPTIONS.simps simp_thms)
qed

text \<open>
  C4, as the code has it. When a product image and a style image are both present, the
  built prompt is the prompt built without a style image followed by exactly one style
  clause: the pending clause while \<open>isAnalyzingStyle\<close> holds; otherwise the clause
  quoting the stored description verbatim when that description is a non-empty string;
  otherwise (the description is \<^verbatim>\<open>null\<close> or the empty string) the generic fallback clause.
\<close>

theorem style_clause_selected:
  assumes "productImage s = Some p" and "styleImage s = Some sty"
  shows
    "(isAnalyzingStyle s \<longrightarrow>
        prompt (generateNewPrompt s) =
          prompt (generateNewPrompt (s\<lparr>styleImage := None\<rparr>)) @
          ''\<newline>\<newline>- **Style Reference**: A style reference image is being analyzed. Please wait for the analysis to complete for specific style instructions.'') \<and>
     (\<not> isAnalyzingStyle s \<and> styleDescription s = Some d \<and> d \<noteq> [] \<longrightarrow>
        prompt (generateNewPrompt s) =
          prompt (generateNewPrompt (s\<lparr>styleImage := None\<rparr>)) @
          ''\<newline>\<newline>- **Style Reference**: Strictly adhere to the aesthetic of the provided style reference image, which is described as: ''
          @ [CHR 0x22] @ d @ [CHR 0x22] @
          ''. The goal is to make the product look as if it belongs in the same visual world, matching the mood, color palette, and textures.'') \<and>
     (\<not> isAnalyzingStyle s \<and> (styleDescription s = None \<or> styleDescription s = Some []) \<longrightarrow>
        prompt (generateNewPrompt s) =
          prompt (generateNewPrompt (s\<lparr>styleImage := None\<rparr>)) @
          ''\<newline>\<newline>- **Style Reference**: Strictly adhere to the aesthetic, color palette, texture, and overall mood of the provided style reference image. The goal is to make the product look as if it belongs in the same visual world as the style reference.'')"
    (is "(_ \<longrightarrow> ?A) \<and> (_ \<longrightarrow> ?B) \<and> (_ \<longrightarrow> ?C)")
proof -
  note suffix = generateNewPrompt_style_suffix [OF assms(1)]
  have a: "styleClause s = clause_pending" if "isAnalyzingStyle s"
    using that assms(2) by (simp add: styleClause_def)
  have b: "styleClause s = clause_described d"
    if "\<not> isAnalyzingStyle s" "styleDescription s = Some d" "d \<noteq> []"
    using that assms(2) by (simp add: styleClause_def)
  have c: "styleClause s = clause_fallback"
    if "\<not> isAnalyzingStyle s" "styleDescription s = None \<or> styleDescription s = Some []"
    using that assms(2) by (auto simp add: styleClause_def)
  show ?thesis
  proof (intro conjI impI)
    assume "isAnalyzingStyle s"
    from a [OF this] suffix show ?A
      unfolding clause_pending_def by (simp only:)
  next
    assume "\<not> isAnalyzingStyle s \<and> styleDescription s = Some d \<and> d \<noteq> []"
    then have "styleClause s = clause_described d" using b by blast
    with suffix show ?B
      unfolding clause_described_def by (simp only:)
  next
    assume "\<not> isAnalyzingStyle s \<and> (styleDescription s = None \<or> styleDescription s = Some [])"
    then have "styleClause s = clause_fallback" using c by blast
    with suffix show ?C
      unfolding clause_fallback_def by (simp only:)
  qed
qed

text \<open>
  The three cases on concrete states: analysis pending, analysis resolved to
  \<^verbatim>\<open>minimalist pastel\<close> (the clause then reads \<^verbatim>\<open>described as: "minimalist pastel"\<close>),
  and analysis failed.
\<close>

theorem style_clause_selected_witness:
  "productImage pending_state = Some example_product \<and>
   styleImage pending_state = Some example_style \<and> isAnalyzingStyle pending_state \<and>
   prompt (generateNewPrompt pending_state) =
     prompt (generateNewPrompt (pending_state\<lparr>styleImage := None\<rparr>)) @
     ''\<newline>\<newline>- **Style Reference**: A style reference image is being analyzed. Please wait for the analysis to complete for specific style instructions.'' \<and>
   productImage described_state = Some example_product \<and>
   styleImage described_state = Some example_style \<and> \<not> isAnalyzingStyle described_state \<and>
   styleDescription described_state = Some ''minimalist pastel'' \<and>
   prompt (generateNewPrompt described_state) =
     prompt (generateNewPrompt (described_state\<lparr>styleImage := None\<rparr>)) @
     ''\<newline>\<newline>- **Style Reference**: Strictly adhere to the aesthetic of the provided style reference image, which is described as: ''
     @ [CHR 0x22] @ ''minimalist pastel'' @ [CHR 0x22] @
     ''. The goal is to make the product look as if it belongs in the same visual world, matching the mood, color palette, and textures.'' \<and>
   productImage failed_state = Some example_product \<and>
   styleImage failed_state = Some example_style \<and> \<not> isAnalyzingStyle failed_state \<and>
   styleDescription failed_state = None \<and>
   prompt (generateNewPrompt failed_state) =
     prompt (generateNewPrompt (failed_state\<lparr>styleImage := None\<rparr>)) @
     ''\<newline>\<newline>- **Style Reference**: Strictly adhere to the aesthetic, color palette, texture, and overall mood of the provided style reference image. The goal is to make the product look as if it belongs in the same visual world as the style reference.''"
  (is "_ \<and> _ \<and> _ \<and> ?A \<and> _ \<and> _ \<and> _ \<and> _ \<and> ?B \<and> _ \<and> _ \<and> _ \<and> _ \<and> ?C")
proof -
  have p: "productImage pending_state = Some example_product"
    "styleImage pending_state = Some example_style" "isAnalyzingStyle pending_state"
    by (simp_all add: pending_state_def example_state_def)
  have d: "productImage described_state = Some example_product"
    "styleImage described_state = Some example_style" "\<not> isAnalyzingStyle described_state"
    "styleDescription described_state = Some ''minimalist pastel''"
    by (simp_all add: described_state_def example_state_def)
  have f: "productImage failed_state = Some example_product"
    "styleImage failed_state = Some example_style" "\<not> isAnalyzingStyle failed_state"
    "styleDescription failed_state = None"
    by (simp_all add: failed_state_def example_state_def)
  have ne: "''minimalist pastel'' \<noteq> []" by simp
  from style_clause_selected [OF p(1,2)] p(3) have 1: ?A by blast
  from style_clause_selected [OF d(1,2), of "''minimalist pastel''"] d(3,4) ne
  have 2: ?B by blast
  from style_clause_selected [OF f(1,2)] f(3,4) have 3: ?C by blast
  from p d f 1 2 3 show ?thesis by (intro conjI)
qed

text \<open>
  C4 as it is worded fails where the analysis succeeds with the empty string. In the
  state reached from the example state by choosing a style image whose analysis resolves
  to \<^verbatim>\<open>""\<close>, both images are present, the analysis is over and the description is stored,
  yet the prompt does not contain the clause embedding that description
  (\<^verbatim>\<open>described as: ""\<close>); it ends in the generic fallback clause instead.
\<close>

theorem described_clause_counterexample:
  "productImage empty_description_state = Some example_product \<and>
   styleImage empty_description_state = Some example_style \<and>
   \<not> isAnalyzingStyle empty_description_state \<and>
   styleDescription empty_description_state = Some [] \<and>
   \<not> sublist
       (''\<newline>\<newline>- **Style Reference**: Strictly adhere to the aesthetic of the provided style reference image, which is described as: ''
        @ [CHR 0x22] @ [] @ [CHR 0x22] @
        ''. The goal is to make the product look as if it belongs in the same visual world, matching the mood, color palette, and textures.'')
       (prompt (generateNewPrompt empty_description_state)) \<and>
   prompt (generateNewPrompt empty_description_state) =
     prompt (generateNewPrompt (empty_description_state\<lparr>styleImage := None\<rparr>)) @
     ''\<newline>\<newline>- **Style Reference**: Strictly adhere to the aesthetic, color palette, texture, and overall mood of the provided style reference image. The goal is to make the product look as if it belongs in the same visual world as the style reference.''"
  (is "_ \<and> _ \<and> _ \<and> _ \<and> ?N \<and> ?F")
proof -
  have st: "empty_description_state =
      generateNewPrompt
        (example_state\<lparr>styleImage := Some example_style, error := None,
           styleDescription := Some [], isAnalyzingStyle := False\<rparr>)"
    by (simp add: empty_description_state_def setStyleImage_def styleEffect_def
        styleEffect_begin_def resolve_empty_def)
  have pi: "productImage empty_description_state = Some example_product"
    by (simp add: st generateNewPrompt_cells example_state_def)
  have sc: "styleClause empty_description_state = clause_fallback"
    by (simp add: st generateNewPrompt_cells styleClause_def)
  have opts: "lightingStyle (options empty_description_state) = Golden_Hour"
    "cameraPerspective (options empty_description_state) = Close_up"
    by (simp_all add: st generateNewPrompt_cells example_state_def)
  have pr: "prompt (generateNewPrompt empty_description_state) =
      template_head @ LIGHTING_DESCRIPTIONS Golden_Hour @ template_mid @
      CAMERA_PERSPECTIVE_DESCRIPTIONS Close_up @ template_tail @ clause_fallback"
    using generateNewPrompt_shape [OF pi] by (simp only: sc opts)
  have no_quote: "CHR 0x22 \<notin> set (prompt (generateNewPrompt empty_description_state))"
    unfolding pr template_defs by simp
  have "\<not> sublist (xs @ [CHR 0x22] @ [] @ [CHR 0x22] @ ys)
       (prompt (generateNewPrompt empty_description_state))" for xs ys
  proof
    assume "sublist (xs @ [CHR 0x22] @ [] @ [CHR 0x22] @ ys)
       (prompt (generateNewPrompt empty_description_state))"
    from set_mono_sublist [OF this] have
      "CHR 0x22 \<in> set (prompt (generateNewPrompt empty_description_state))" by auto
    with no_quote show False by simp
  qed
  then have n: ?N .
  from generateNewPrompt_style_suffix [OF pi] sc have f: ?F
    unfolding clause_fallback_def by (simp only:)
  have "styleImage empty_description_state = Some example_style"
    "\<not> isAnalyzingStyle empty_description_state"
    "styleDescription empty_description_state = Some []"
    by (simp_all add: st generateNewPrompt_cells example_state_def)
  with pi n f show ?thesis by (intro conjI)
qed

text \<open>
  C8. With a product image, Golden Hour, Close-up and no style image, the built prompt
  is the template with the Golden Hour sentence and the Close-up sentence in place of the
  two interpolations, and it contains no style-reference clause: the heading
  \<^verbatim>\<open>- **Style Reference**\<close>, with which each of the three style clauses starts, does not
  occur in it.
\<close>

theorem golden_hour_close_up_prompt:
  assumes "productImage s = Some p" and "styleImage s = None"
    and "lightingStyle (options s) = Golden_Hour"
    and "cameraPerspective (options s) = Close_up"
  shows "prompt (generateNewPrompt s) =
     ''Generate a high-resolution, professional product photograph of the subject in the provided image.\<newline>\<newline>Key requirements:\<newline>- **Lighting**: Illuminated by the warm, soft, and directional light of the golden hour (just after sunrise or before sunset). The scene should have long, soft shadows and a warm, inviting color palette.\<newline>- **Camera Perspective**: A tight shot focusing on a specific, interesting detail of the product. This should highlight its material, texture, craftsmanship, or a key feature with a shallow depth of field.\<newline>- **Background**: The background should be clean, non-distracting, and complementary to the product. A subtle, high-end studio setting is preferred, unless the lighting or style suggests otherwise.\<newline>- **Overall Mood**: The image should feel premium, clean, and aspirational. Focus on photorealism and fine detail.'' \<and>
   \<not> sublist ''- **Style Reference**'' (prompt (generateNewPrompt s))"
  (is "?E \<and> _")
proof -
  have "styleClause s = []" using assms(2) by (simp add: styleClause_def)
  with generateNewPrompt_shape [OF assms(1)] assms(3,4)
  have "prompt (generateNewPrompt s) = template_head @ LIGHTING_DESCRIPTIONS Golden_Hour @
           template_mid @ CAMERA_PERSPECTIVE_DESCRIPTIONS Close_up @ template_tail @ []"
    by (simp only:)
  then have ?E
    unfolding template_defs
    by (simp only: LIGHTING_DESCRIPTIONS.simps CAMERA_PERSPECTIVE_DESCRIPTIONS.simps
        append_Cons append_Nil)
  with no_style_marker [OF assms(1,2)] show ?thesis by (intro conjI)
qed

text \<open>The example state meets the four conditions; its prompt has 839 characters.\<close>

theorem golden_hour_close_up_prompt_witness:
  "productImage example_state = Some example_product \<and> styleImage example_state = None \<and>
   lightingStyle (options example_state) = Golden_Hour \<and>
   cameraPerspective (options example_state) = Close_up \<and>
   length (prompt (generateNewPrompt example_state)) = 839 \<and>
   \<not> sublist ''- **Style Reference**'' (prompt (generateNewPrompt example_state))"
proof -
  have a: "productImage example_state = Some example_product"
    and b: "styleImage example_state = None"
    and c: "lightingStyle (options example_state) = Golden_Hour"
    and d: "cameraPerspective (options example_state) = Close_up"
    by (simp_all add: example_state_def)
  note g = golden_hour_close_up_prompt [OF a b c d]
  have "length (prompt (generateNewPrompt example_state)) = 839"
    by (simp add: g [THEN conjunct1])
  with g [THEN conjunct2] a b c d show ?thesis by (intro conjI)
qed

section \<open>Properties of the generation handler\<close>

text \<open>
  C2. When generation is triggered while the product image is absent or the prompt is
  empty, the handler sets the validation error in its synchronous part and returns there
  (no call is pending), and the whole run makes no call to the generation collaborator.
\<close>

theorem handleGenerate_validation_error:
  assumes "productImage s = None \<or> prompt s = []"
  shows "error (fst (handleGenerate_begin s)) =
           Some ''Please upload a product image and ensure the prompt is not empty.'' \<and>
         snd (handleGenerate_begin s) = None \<and>
         error (fst (handleGenerate generateImage s)) =
           Some ''Please upload a product image and ensure the prompt is not empty.'' \<and>
         snd (handleGenerate generateImage s) = []"
  by (simp add: handleGenerate_def handleGenerate_invalid [OF assms])

text \<open>Once without a product image, once with a product image and an emptied prompt.\<close>

theorem handleGenerate_validation_error_witness:
  "(productImage no_product_state = None \<or> prompt no_product_state = []) \<and>
   error (fst (handleGenerate generate_ok no_product_state)) =
     Some ''Please upload a product image and ensure the prompt is not empty.'' \<and>
   snd (handleGenerate generate_ok no_product_state) = [] \<and>
   productImage edited_empty_state \<noteq> None \<and> prompt edited_empty_state = [] \<and>
   error (fst (handleGenerate generate_ok edited_empty_state)) =
     Some ''Please upload a product image and ensure the prompt is not empty.'' \<and>
   snd (handleGenerate generate_ok edited_empty_state) = []"
proof -
  have a: "productImage no_product_state = None \<or> prompt no_product_state = []"
    by (simp add: no_product_state_def)
  have b: "productImage edited_empty_state = None \<or> prompt edited_empty_state = []"
    by (simp add: edited_empty_state_def)
  have c: "productImage edited_empty_state \<noteq> None" "prompt edited_empty_state = []"
    by (simp_all add: edited_empty_state_def example_state_def)
  from handleGenerate_validation_error [OF a, of generate_ok]
    handleGenerate_validation_error [OF b, of generate_ok] a c
  show ?thesis by blast
qed

text \<open>
  C5. A trigger that passes validation first sets the loading flag and clears the error
  message and the generated image, then calls the collaborator with the product image,
  the prompt text and the style image (possibly \<^verbatim>\<open>null\<close>). When the call resolves, the
  result is stored; when it rejects, the error message is stored (the message of the
  \<^verbatim>\<open>Error\<close>, or the fixed text for any other rejection) and the generated image stays
  \<^verbatim>\<open>null\<close>. In every case the loading flag is cleared at the end.
\<close>

theorem handleGenerate_valid_flow:
  assumes "productImage s = Some p" and "prompt s \<noteq> []"
  shows "handleGenerate_begin s =
           (s\<lparr>isLoading := True, error := None, generatedImage := None\<rparr>,
            Some (p, prompt s, styleImage s)) \<and>
         (generateImage p (prompt s) (styleImage s) = Resolved r \<longrightarrow>
            fst (handleGenerate generateImage s) =
              s\<lparr>isLoading := False, error := None, generatedImage := Some r\<rparr>) \<and>
         (generateImage p (prompt s) (styleImage s) = RejectedError m \<longrightarrow>
            fst (handleGenerate generateImage s) =
              s\<lparr>isLoading := False, error := Some m, generatedImage := None\<rparr>) \<and>
         (generateImage p (prompt s) (styleImage s) = RejectedOther \<longrightarrow>
            fst (handleGenerate generateImage s) =
              s\<lparr>isLoading := False,
                error := Some ''An unknown error occurred during image generation.'',
                generatedImage := None\<rparr>)"
  by (simp add: handleGenerate_def handleGenerate_valid [OF assms])

text \<open>
  From a state that still holds an old error and an old result, with a collaborator
  that resolves, one that rejects with an \<^verbatim>\<open>Error\<close> and one that rejects otherwise.
\<close>

theorem handleGenerate_valid_flow_witness:
  "productImage stale_state = Some example_product \<and> prompt stale_state \<noteq> [] \<and>
   error stale_state \<noteq> None \<and> generatedImage stale_state \<noteq> None \<and>
   error (fst (handleGenerate_begin stale_state)) = None \<and>
   generatedImage (fst (handleGenerate_begin stale_state)) = None \<and>
   snd (handleGenerate_begin stale_state) = Some (example_product, ''Make it shine'', None) \<and>
   generatedImage (fst (handleGenerate generate_ok stale_state)) = Some example_result \<and>
   error (fst (handleGenerate generate_ok stale_state)) = None \<and>
   generatedImage (fst (handleGenerate generate_error stale_state)) = None \<and>
   error (fst (handleGenerate generate_error stale_state)) = Some ''quota exceeded'' \<and>
   generatedImage (fst (handleGenerate generate_thrown stale_state)) = None \<and>
   error (fst (handleGenerate generate_thrown stale_state)) =
     Some ''An unknown error occurred during image generation.''"
proof -
  have a: "productImage stale_state = Some example_product"
    by (simp add: stale_state_def example_state_def)
  have b: "prompt stale_state \<noteq> []"
    by (simp add: stale_state_def example_state_def)
  have c: "error stale_state \<noteq> None" "generatedImage stale_state \<noteq> None"
    "prompt stale_state = ''Make it shine''" "styleImage stale_state = None"
    by (simp_all add: stale_state_def example_state_def)
  from handleGenerate_valid_flow [OF a b, of generate_ok example_result]
    handleGenerate_valid_flow [OF a b, of generate_error _ "''quota exceeded''"]
    handleGenerate_valid_flow [OF a b, of generate_thrown]
    a b c
  show ?thesis
    by (simp add: generate_ok_def generate_error_def generate_thrown_def)
qed

text \<open>
  C6. A trigger with a product image present and a non-empty prompt applies the
  generation collaborator to the product image, the prompt and the style image of the
  state at the trigger, and to nothing else: the state after the trigger is the
  continuation of the handler on the outcome of that one application, taken in the state
  with the loading flag set and error and result cleared, and the calls made are that
  one call.
\<close>

theorem handleGenerate_calls_once:
  assumes "productImage s = Some p" and "prompt s \<noteq> []"
  shows "handleGenerate generateImage s =
           (handleGenerate_resume (generateImage p (prompt s) (styleImage s))
              (s\<lparr>isLoading := True, error := None, generatedImage := None\<rparr>),
            [(p, prompt s, styleImage s)]) \<and>
         length (snd (handleGenerate generateImage s)) = 1"
  by (simp add: handleGenerate_def handleGenerate_valid [OF assms])

text \<open>
  With a collaborator that answers with an image named after the prompt it was given,
  the stored result carries the prompt and the product image of the example state; with
  one that rejects, its message is stored. Each run makes the one call.
\<close>

theorem handleGenerate_calls_once_witness:
  "productImage example_state = Some example_product \<and> prompt example_state \<noteq> [] \<and>
   handleGenerate generate_echo example_state =
     (example_state
        \<lparr>generatedImage :=
           Some \<lparr>base64 = ''cHJvZHVjdA=='', mimeType = ''image/png'', name = ''Make it shine''\<rparr>\<rparr>,
      [(example_product, ''Make it shine'', None)]) \<and>
   error (fst (handleGenerate generate_error example_state)) = Some ''quota exceeded'' \<and>
   snd (handleGenerate generate_error example_state) = [(example_product, ''Make it shine'', None)]"
proof -
  have a: "productImage example_state = Some example_product"
    by (simp add: example_state_def)
  have b: "prompt example_state \<noteq> []"
    by (simp add: example_state_def)
  have c: "prompt example_state = ''Make it shine''" "styleImage example_state = None"
    "isLoading example_state = False" "error example_state = None"
    by (simp_all add: example_state_def)
  have 1: "handleGenerate generate_echo example_state =
     (example_state
        \<lparr>generatedImage :=
           Some \<lparr>base64 = ''cHJvZHVjdA=='', mimeType = ''image/png'', name = ''Make it shine''\<rparr>\<rparr>,
      [(example_product, ''Make it shine'', None)])"
    using handleGenerate_calls_once [OF a b, of generate_echo]
    by (simp add: generate_echo_def example_state_def example_product_def)
  have 2: "error (fst (handleGenerate generate_error example_state)) = Some ''quota exceeded''"
    "snd (handleGenerate generate_error example_state) = [(example_product, ''Make it shine'', None)]"
    using handleGenerate_calls_once [OF a b, of generate_error] c
    by (simp_all add: generate_error_def)
  from a b 1 2 show ?thesis by (intro conjI)
qed

text \<open>
  C10. A trigger that fails validation changes the error message and nothing else: the
  state after it is the state before it with the error cell overwritten. In particular
  the generated image, the loading flag, the prompt and every other cell keep their
  values, so an earlier generation result is not cleared.
\<close>

theorem handleGenerate_validation_frame:
  assumes "productImage s = None \<or> prompt s = []"
  shows "fst (handleGenerate generateImage s) =
           s\<lparr>error := Some ''Please upload a product image and ensure the prompt is not empty.''\<rparr> \<and>
         generatedImage (fst (handleGenerate generateImage s)) = generatedImage s \<and>
         isLoading (fst (handleGenerate generateImage s)) = isLoading s \<and>
         prompt (fst (handleGenerate generateImage s)) = prompt s \<and>
         productImage (fst (handleGenerate generateImage s)) = productImage s \<and>
         styleImage (fst (handleGenerate generateImage s)) = styleImage s \<and>
         styleDescription (fst (handleGenerate generateImage s)) = styleDescription s \<and>
         isAnalyzingStyle (fst (handleGenerate generateImage s)) = isAnalyzingStyle s \<and>
         options (fst (handleGenerate generateImage s)) = options s"
  by (simp add: handleGenerate_def handleGenerate_invalid [OF assms])

text \<open>The earlier result is still there after the failed trigger.\<close>

theorem handleGenerate_validation_frame_witness:
  "(productImage no_product_state = None \<or> prompt no_product_state = []) \<and>
   generatedImage no_product_state = Some example_result \<and>
   generatedImage (fst (handleGenerate generate_ok no_product_state)) = Some example_result \<and>
   fst (handleGenerate generate_ok no_product_state) =
     no_product_state
       \<lparr>error := Some ''Please upload a product image and ensure the prompt is not empty.''\<rparr>"
proof -
  have a: "productImage no_product_state = None \<or> prompt no_product_state = []"
    by (simp add: no_product_state_def)
  have b: "generatedImage no_product_state = Some example_result"
    by (simp add: no_product_state_def)
  from handleGenerate_validation_frame [OF a, of generate_ok] a b
  show ?thesis by simp
qed

section \<open>Properties of the style analysis\<close>

text \<open>
  C7. Every change of the style image runs the style-analysis effect; the statement is
  about the cells that effect writes (\<open>styleDescription\<close>, \<open>error\<close>, \<open>isAnalyzingStyle\<close>),
  the cell \<open>styleImage\<close> itself and the calls made. Removing the style image resets the
  stored description to \<^verbatim>\<open>null\<close>, leaves the error and the analysing flag as they were
  and calls no collaborator. Setting a style image calls the analysis collaborator once,
  with that image, and ends with the analysing flag cleared; when the call resolves the
  description is stored and the error is \<^verbatim>\<open>null\<close>; when it rejects the description is
  cleared to \<^verbatim>\<open>null\<close> and an error message is stored, which is the message of the
  \<^verbatim>\<open>Error\<close> or, for any other rejection, the fixed fallback text.
\<close>

theorem style_analysis_flow:
  "styleImage (fst (setStyleImage analyzeStyleImage None s)) = None \<and>
   styleDescription (fst (setStyleImage analyzeStyleImage None s)) = None \<and>
   error (fst (setStyleImage analyzeStyleImage None s)) = error s \<and>
   isAnalyzingStyle (fst (setStyleImage analyzeStyleImage None s)) = isAnalyzingStyle s \<and>
   snd (setStyleImage analyzeStyleImage None s) = [] \<and>
   snd (setStyleImage analyzeStyleImage (Some img) s) = [img] \<and>
   styleImage (fst (setStyleImage analyzeStyleImage (Some img) s)) = Some img \<and>
   \<not> isAnalyzingStyle (fst (setStyleImage analyzeStyleImage (Some img) s)) \<and>
   (analyzeStyleImage img = Resolved d \<longrightarrow>
      styleDescription (fst (setStyleImage analyzeStyleImage (Some img) s)) = Some d \<and>
      error (fst (setStyleImage analyzeStyleImage (Some img) s)) = None) \<and>
   (analyzeStyleImage img = RejectedError m \<longrightarrow>
      styleDescription (fst (setStyleImage analyzeStyleImage (Some img) s)) = None \<and>
      error (fst (setStyleImage analyzeStyleImage (Some img) s)) = Some m) \<and>
   (analyzeStyleImage img = RejectedOther \<longrightarrow>
      styleDescription (fst (setStyleImage analyzeStyleImage (Some img) s)) = None \<and>
      error (fst (setStyleImage analyzeStyleImage (Some img) s)) =
        Some ''Could not analyze the style image.'')"
proof -
  have removed: "setStyleImage analyzeStyleImage None s =
      (generateNewPrompt (s\<lparr>styleImage := None, styleDescription := None\<rparr>), [])"
    by (simp add: setStyleImage_def styleEffect_def styleEffect_begin_def)
  have chosen: "setStyleImage analyzeStyleImage (Some img) s =
      (generateNewPrompt
         (getStyleDescription_resume (analyzeStyleImage img)
            (s\<lparr>styleImage := Some img, isAnalyzingStyle := True, error := None\<rparr>)),
       [img])"
    by (simp add: setStyleImage_def styleEffect_def styleEffect_begin_def)
  have settled: "\<not> isAnalyzingStyle (fst (setStyleImage analyzeStyleImage (Some img) s))"
    by (cases "analyzeStyleImage img") (simp_all add: chosen generateNewPrompt_cells)
  have kept: "styleImage (fst (setStyleImage analyzeStyleImage (Some img) s)) = Some img"
    by (cases "analyzeStyleImage img") (simp_all add: chosen generateNewPrompt_cells)
  show ?thesis
    using settled kept by (simp add: removed chosen generateNewPrompt_cells)
qed

text \<open>
  Removal from a state that holds a description, and the three outcomes of an analysis.
\<close>

theorem style_analysis_flow_witness:
  "styleDescription warm_state = Some ''warm tones'' \<and>
   styleDescription (fst (setStyleImage analyze_ok None warm_state)) = None \<and>
   snd (setStyleImage analyze_ok None warm_state) = [] \<and>
   snd (setStyleImage analyze_ok (Some example_style) example_state) = [example_style] \<and>
   styleDescription (fst (setStyleImage analyze_ok (Some example_style) example_state)) =
     Some ''minimalist pastel'' \<and>
   styleDescription (fst (setStyleImage analyze_error (Some example_style) warm_state)) = None \<and>
   error (fst (setStyleImage analyze_error (Some example_style) warm_state)) =
     Some ''network down'' \<and>
   styleDescription (fst (setStyleImage analyze_thrown (Some example_style) warm_state)) = None \<and>
   error (fst (setStyleImage analyze_thrown (Some example_style) warm_state)) =
     Some ''Could not analyze the style image.''"
proof -
  have a: "analyze_ok example_style = Resolved ''minimalist pastel''"
    by (simp add: analyze_ok_def)
  have b: "analyze_error example_style = RejectedError ''network down''"
    by (simp add: analyze_error_def)
  have c: "analyze_thrown example_style = RejectedOther"
    by (simp add: analyze_thrown_def)
  have d: "styleDescription warm_state = Some ''warm tones''"
    by (simp add: warm_state_def)
  from style_analysis_flow [of analyze_ok warm_state example_style "''minimalist pastel''"]
    style_analysis_flow [of analyze_ok example_state example_style "''minimalist pastel''"]
    style_analysis_flow [of analyze_error warm_state example_style _ "''network down''"]
    style_analysis_flow [of analyze_thrown warm_state example_style]
    a b c d
  show ?thesis by simp
qed

text \<open>
  C9. The two flows write the same error cell. Whenever a style image is set and its
  analysis starts, the error is reset to \<^verbatim>\<open>null\<close> before the collaborator answers. So an
  error stored by a failed generation is gone as soon as a style image is chosen, and it
  stays gone when the analysis succeeds.
\<close>

theorem style_analysis_resets_shared_error:
  assumes "productImage s = Some p" and "prompt s \<noteq> []"
    and "generateImage p (prompt s) (styleImage s) = RejectedError m"
  shows "error (fst (styleEffect_begin (s'\<lparr>styleImage := Some img\<rparr>))) = None \<and>
         error (fst (handleGenerate generateImage s)) = Some m \<and>
         error (fst (styleEffect_begin
                  ((fst (handleGenerate generateImage s))\<lparr>styleImage := Some img\<rparr>))) = None \<and>
         (analyzeStyleImage img = Resolved d \<longrightarrow>
            error (fst (setStyleImage analyzeStyleImage (Some img)
                     (fst (handleGenerate generateImage s)))) = None)"
  using assms(3)
  by (simp add: handleGenerate_def handleGenerate_valid [OF assms(1,2)]
      setStyleImage_def styleEffect_def styleEffect_begin_def generateNewPrompt_cells)

text \<open>A failed generation on the example state, followed by the choice of a style image.\<close>

theorem style_analysis_resets_shared_error_witness:
  "productImage example_state = Some example_product \<and> prompt example_state \<noteq> [] \<and>
   error (fst (handleGenerate generate_error example_state)) = Some ''quota exceeded'' \<and>
   error (fst (styleEffect_begin
            ((fst (handleGenerate generate_error example_state))
               \<lparr>styleImage := Some example_style\<rparr>))) = None \<and>
   error (fst (setStyleImage analyze_ok (Some example_style)
            (fst (handleGenerate generate_error example_state)))) = None"
proof -
  have a: "productImage example_state = Some example_product"
    by (simp add: example_state_def)
  have b: "prompt example_state \<noteq> []"
    by (simp add: example_state_def)
  have c: "generate_error example_product (prompt example_state) (styleImage example_state) =
      RejectedError ''quota exceeded''"
    by (simp add: generate_error_def)
  have d: "analyze_ok example_style = Resolved ''minimalist pastel''"
    by (simp add: analyze_ok_def)
  from style_analysis_resets_shared_error
    [where s = example_state and p = example_product and generateImage = generate_error
       and m = "''quota exceeded''" and img = example_style and analyzeStyleImage = analyze_ok
       and d = "''minimalist pastel''" and s' = example_state, OF a b c]
    a b d
  show ?thesis by simp
qed

end
